theory Spec2Isabelle
  imports Main
begin

section \<open>Go values shared by the two source files\<close>

text \<open>
  A Go \<open>string\<close> is a sequence of bytes: \<open>string\<close> (a list of \<open>char\<close>).
  A Go \<open>error\<close> is \<open>nil\<close> or carries a message: \<open>None\<close> is \<open>nil\<close>,
  \<open>Some msg\<close> is a non-nil error whose \<open>Error()\<close> is \<open>msg\<close>.
\<close>

type_synonym err = "string option"

text \<open>
  A call that may never come back (a receive from a channel nobody sends on) either
  returns a value or blocks for ever.
\<close>

datatype 'a outcome = Returns 'a | Blocks

text \<open>\<open>lockjson.Repos\<close>, as far as the two files read it. \<open>Type\<close> is a string type.\<close>

record Repos =
  Type :: string
  Path :: string
  Version :: string

text \<open>
  Modelled from the spec: the two repository types of package lockjson (\<open>ReposGitType\<close>
  and \<open>ReposStaticType\<close> are not among the sources), "\<open>Type\<close> in {git, static}".
\<close>

definition ReposGitType :: string where
  "ReposGitType = ''git''"

definition ReposStaticType :: string where
  "ReposStaticType = ''static''"

record LockJSON =
  ActiveProfile :: string
  CurrentProfileName :: string

record Profile =
  UseVimrc :: bool
  UseGvimrc :: bool

subsection \<open>Paths\<close>

text \<open>
  \<open>filepath.Join\<close> of two elements, \<open>filepath.Split\<close> (its directory part, up to and
  with the last slash) and \<open>filepath.Dir\<close> (the directory part without the slash).
  The cleaning of the result that \<open>Join\<close> and \<open>Dir\<close> do (doubled slashes, dots)
  is left out.
\<close>

definition Join :: "string \<Rightarrow> string \<Rightarrow> string" where
  "Join a b = a @ ''/'' @ b"

definition Split_dir :: "string \<Rightarrow> string" where
  "Split_dir path = rev (dropWhile (\<lambda>c. c \<noteq> CHR ''/'') (rev path))"

definition filepath_Dir :: "string \<Rightarrow> string" where
  "filepath_Dir path = butlast (Split_dir path)"

subsection \<open>strings.NewReplacer with single-byte old strings\<close>

text \<open>
  \<open>strings.NewReplacer(old1, new1, old2, new2, ...)\<close> of the Go standard library, for
  old strings that are all one byte long: the argument pairs fill a table from byte to
  replacement (an earlier pair wins for a repeated byte), and \<open>Replace\<close> walks the
  input once, byte by byte, emitting the replacement of a byte in the table and the byte
  itself otherwise. Replacements are never rescanned.
\<close>

fun NewReplacer :: "(char \<times> string) list \<Rightarrow> char \<Rightarrow> string option" where
  "NewReplacer [] c = None"
| "NewReplacer ((old, new) # ps) c = (if c = old then Some new else NewReplacer ps c)"

fun Replace :: "(char \<Rightarrow> string option) \<Rightarrow> string \<Rightarrow> string" where
  "Replace r [] = []"
| "Replace r (c # cs) = (case r c of Some new \<Rightarrow> new | None \<Rightarrow> [c]) @ Replace r cs"

section \<open>The file system and the calls of package os\<close>

text \<open>
  The program works on the host's file system through package \<open>os\<close>. A path holds
  a regular file with its bytes, a directory, or nothing. Every call that changes the
  file system is appended to \<open>log\<close> when it is issued, whether it then succeeds or
  not, so that "nothing was attempted" can be said of a run; so is every goroutine that
  is started (\<open>Go_...\<close>), whose own file operations run beside the caller's and are
  not part of the caller's world. A call can fail for a reason the model does not
  compute (permissions, a full disk): \<open>faults\<close> says for which paths, and with which
  message.
\<close>

datatype node = File string | Dir

datatype event =
    Remove string
  | Create string
  | Write string string
  | Rename string string
  | MkdirAll string
  | WriteFile string string nat
  | Go_RemoveAll string
  | Go_copyGitRepos Repos
  | Go_copyStaticRepos Repos
  | Go_installRepos Repos

record os_faults =
  open_fault :: "string \<Rightarrow> err"
  read_fault :: "string \<Rightarrow> err"
  remove_fault :: "string \<Rightarrow> err"
  create_fault :: "string \<Rightarrow> err"
  write_fault :: "string \<Rightarrow> err"
  rename_fault :: "string \<Rightarrow> err"
  mkdir_fault :: "string \<Rightarrow> err"

record world =
  fs :: "string \<Rightarrow> node option"
  faults :: os_faults
  log :: "event list"

definition issue :: "event \<Rightarrow> world \<Rightarrow> world" where
  "issue e w = w\<lparr>log := log w @ [e]\<rparr>"

text \<open>\<open>pathutil.Exists\<close> (package pathutil is not among the sources): the path is there.\<close>

definition Exists :: "world \<Rightarrow> string \<Rightarrow> bool" where
  "Exists w path = (fs w path \<noteq> None)"

text \<open>\<open>os.Open\<close>: the node found at the path is what the reader will read.\<close>

definition os_Open :: "world \<Rightarrow> string \<Rightarrow> string + node" where
  "os_Open w name =
     (case open_fault (faults w) name of
        Some e \<Rightarrow> Inl e
      | None \<Rightarrow>
          (case fs w name of
             None \<Rightarrow> Inl (''open '' @ name @ '': no such file or directory'')
           | Some nd \<Rightarrow> Inr nd))"

text \<open>
  \<open>(*os.File).Read\<close> into a fresh buffer of \<open>len\<close> zero bytes, at offset 0: the
  count of bytes read, the buffer afterwards, and the error (\<open>io.EOF\<close> when nothing is
  left to read).
\<close>

definition file_Read :: "world \<Rightarrow> string \<Rightarrow> node \<Rightarrow> nat \<Rightarrow> nat \<times> string \<times> err" where
  "file_Read w name nd len =
     (case nd of
        Dir \<Rightarrow> (0, replicate len (CHR 0x00), Some (''read '' @ name @ '': is a directory''))
      | File content \<Rightarrow>
          (case read_fault (faults w) name of
             Some e \<Rightarrow> (0, replicate len (CHR 0x00), Some e)
           | None \<Rightarrow>
               (let n = min len (length content)
                in (n, take n content @ replicate (len - n) (CHR 0x00),
                    if n = 0 \<and> 0 < len then Some ''EOF'' else None))))"

text \<open>\<open>os.Remove\<close>: removes the file or directory at the path.\<close>

definition os_Remove :: "world \<Rightarrow> string \<Rightarrow> err \<times> world" where
  "os_Remove w name =
     (let w1 = issue (Remove name) w
      in case remove_fault (faults w) name of
           Some e \<Rightarrow> (Some e, w1)
         | None \<Rightarrow>
             (if fs w name = None
              then (Some (''remove '' @ name @ '': no such file or directory''), w1)
              else (None, w1\<lparr>fs := (fs w)(name := None)\<rparr>)))"

text \<open>\<open>os.Create\<close>: creates the file, or truncates the one that is there.\<close>

definition os_Create :: "world \<Rightarrow> string \<Rightarrow> err \<times> world" where
  "os_Create w name =
     (let w1 = issue (Create name) w
      in case create_fault (faults w) name of
           Some e \<Rightarrow> (Some e, w1)
         | None \<Rightarrow>
             (if fs w name = Some Dir
              then (Some (''open '' @ name @ '': is a directory''), w1)
              else (None, w1\<lparr>fs := (fs w)(name \<mapsto> File [])\<rparr>)))"

text \<open>
  \<open>(*os.File).Write\<close> on a file opened by \<open>os.Create\<close>: the bytes are appended. A
  failed write is modelled as writing nothing.
\<close>

definition file_Write :: "world \<Rightarrow> string \<Rightarrow> string \<Rightarrow> err \<times> world" where
  "file_Write w name bytes =
     (let w1 = issue (Write name bytes) w
      in case write_fault (faults w) name of
           Some e \<Rightarrow> (Some e, w1)
         | None \<Rightarrow>
             (case fs w name of
                Some (File content) \<Rightarrow> (None, w1\<lparr>fs := (fs w)(name \<mapsto> File (content @ bytes))\<rparr>)
              | _ \<Rightarrow> (Some (''write '' @ name @ '': bad file descriptor''), w1)))"

text \<open>
  \<open>io.Copy(writer, reader)\<close>: everything the source file holds when the copy starts is
  read and written to the destination.
\<close>

definition io_Copy :: "world \<Rightarrow> string \<Rightarrow> string \<Rightarrow> err \<times> world" where
  "io_Copy w dst src =
     (case fs w src of
        Some (File content) \<Rightarrow>
          (case read_fault (faults w) src of
             Some e \<Rightarrow> (Some e, w)
           | None \<Rightarrow> file_Write w dst content)
      | Some Dir \<Rightarrow> (Some (''read '' @ src @ '': is a directory''), w)
      | None \<Rightarrow> (Some (''read '' @ src @ '': file already closed''), w))"

text \<open>
  \<open>os.Rename\<close>: the node at the old path, and everything below it, moves to the new
  path. A rename that fails changes nothing.
\<close>

definition below :: "string \<Rightarrow> string \<Rightarrow> bool" where
  "below dir path = (path = dir \<or> take (Suc (length dir)) path = dir @ ''/'')"

definition os_Rename :: "world \<Rightarrow> string \<Rightarrow> string \<Rightarrow> err \<times> world" where
  "os_Rename w oldpath newpath =
     (let w1 = issue (Rename oldpath newpath) w
      in case rename_fault (faults w) oldpath of
           Some e \<Rightarrow> (Some e, w1)
         | None \<Rightarrow>
             (if fs w oldpath = None
              then (Some (''rename '' @ oldpath @ '' '' @ newpath @ '': no such file or directory''), w1)
              else (None, w1\<lparr>fs := (\<lambda>path.
                      if below newpath path then fs w (oldpath @ drop (length newpath) path)
                      else if below oldpath path then None
                      else fs w path)\<rparr>)))"

text \<open>
  \<open>os.MkdirAll\<close>: the directory is there afterwards (the directories above it are
  not entered one by one). \<open>ioutil.WriteFile\<close>: the file holds exactly the data.
\<close>

definition os_MkdirAll :: "world \<Rightarrow> string \<Rightarrow> err \<times> world" where
  "os_MkdirAll w path =
     (let w1 = issue (MkdirAll path) w
      in case mkdir_fault (faults w) path of
           Some e \<Rightarrow> (Some e, w1)
         | None \<Rightarrow>
             (case fs w path of
                Some (File _) \<Rightarrow> (Some (''mkdir '' @ path @ '': not a directory''), w1)
              | _ \<Rightarrow> (None, w1\<lparr>fs := (fs w)(path \<mapsto> Dir)\<rparr>)))"

definition ioutil_WriteFile :: "world \<Rightarrow> string \<Rightarrow> string \<Rightarrow> nat \<Rightarrow> err \<times> world" where
  "ioutil_WriteFile w filename data perm =
     (let w1 = issue (WriteFile filename data perm) w
      in case create_fault (faults w) filename of
           Some e \<Rightarrow> (Some e, w1)
         | None \<Rightarrow>
             (if fs w filename = Some Dir
              then (Some (''open '' @ filename @ '': is a directory''), w1)
              else (case write_fault (faults w) filename of
                      Some e \<Rightarrow> (Some e, w1\<lparr>fs := (fs w)(filename \<mapsto> File [])\<rparr>)
                    | None \<Rightarrow> (None, w1\<lparr>fs := (fs w)(filename \<mapsto> File data)\<rparr>))))"

section \<open>Channels and goroutines\<close>

text \<open>
  A worker goroutine is modelled by the results it sends on the channel it is handed,
  in order. The orchestrators start one job per repository and size the result channel
  to the number of jobs, so no send on it waits. The channel hands the results to the
  receiver in the order the jobs complete, which the scheduler decides: \<open>sched\<close>
  lists job indices in order of completion, and the jobs it leaves out complete after
  those, in the order they were started.
\<close>

definition completion_order :: "nat \<Rightarrow> nat list \<Rightarrow> nat list" where
  "completion_order n sched =
     remdups (filter (\<lambda>i. i < n) sched) @ filter (\<lambda>i. i \<notin> set sched) [0..<n]"

definition arrivals :: "'r list list \<Rightarrow> nat list \<Rightarrow> 'r list" where
  "arrivals jobs sched = concat (map (\<lambda>i. jobs ! i) (completion_order (length jobs) sched))"

text \<open>How a result loop ends: it runs to its end, or returns from the function, or waits
  for ever for a result that never comes.\<close>

datatype loop_exit = Completed | Exit err | Stuck

section \<open>The packages the two files call\<close>

text \<open>
  Packages pathutil, lockjson, copyutil, transaction and the go-git library are not
  among the sources: what their calls return in a run is a parameter of the model.
  A tree's \<open>Files()\<close> iterator is the list of what its \<open>Next()\<close> returns, an error
  or a file; a hash is kept as its hexadecimal string.
\<close>

record git_File =
  Name :: string
  Mode_ToOSFileMode :: "string + nat"
  Contents :: "string + string"

record Commit =
  TreeHash :: string

record Repository =
  CommitObject :: "string \<Rightarrow> string + Commit"
  TreeObject :: "string \<Rightarrow> string + (string + git_File) list"
  Config_Core_IsBare :: "string + bool"

record pathutil =
  VimDir :: string
  VimVoltStartDir :: string
  VimVoltOptDir :: string
  LookUpVimrcOrGvimrc :: "string list"
  RCFileOf :: "string \<Rightarrow> string \<Rightarrow> string"
  FullReposPathOf :: "string \<Rightarrow> string"
  PackReposPathOf :: "string \<Rightarrow> string"
  VimExecutable :: "string \<times> err"
  BundledPlugConf :: string
  Vimrc :: string
  Gvimrc :: string

record env =
  pathutil :: pathutil
  lockjson_Read :: "string + LockJSON"
  PlainOpen :: "string \<Rightarrow> string + Repository"
  NewHash :: "string \<Rightarrow> string"
  schedule :: "nat list"

text \<open>
  \<open>FileIter.ForEach\<close> of go-git: the callback runs on each file in turn; the first
  error, of the iterator or of the callback, ends the walk and is returned.
\<close>

fun ForEach ::
  "(string + git_File) list \<Rightarrow> (git_File \<Rightarrow> world \<Rightarrow> err \<times> world) \<Rightarrow> world \<Rightarrow> err \<times> world" where
  "ForEach [] cb w = (None, w)"
| "ForEach (Inl e # rest) cb w = (Some e, w)"
| "ForEach (Inr file # rest) cb w =
     (case cb file w of
        (Some e, w1) \<Rightarrow> (Some e, w1)
      | (None, w1) \<Rightarrow> ForEach rest cb w1)"

section \<open>cmd/rebuild.go\<close>

record rebuild_env = env +
  transaction_Create :: err
  Profiles_FindByName :: "LockJSON \<Rightarrow> string \<Rightarrow> string + Profile"
  GetReposListByProfile :: "LockJSON \<Rightarrow> Profile \<Rightarrow> string + Repos list"
  CopyDir :: "string \<Rightarrow> string \<Rightarrow> err"
  RemoveAll :: "string \<Rightarrow> err"
  randomString :: string

text \<open>
  \<open>copyReposResult\<close>: its fields \<open>err\<close> and \<open>repos\<close> are written \<open>copy_err\<close> and
  \<open>copy_repos\<close> here, apart from the variables of those names.
\<close>

record copyReposResult =
  copy_err :: err
  copy_repos :: Repos

subsection \<open>The magic comment and the startup files\<close>

definition magicComment :: string where
  "magicComment =
     CHR 0x22 # '' NOTE: this file was generated by volt. please modify original file.''
       @ [CHR 0x0A]"

definition no_magic_comment :: "string \<Rightarrow> string" where
  "no_magic_comment dst = [CHR 0x27] @ dst @ [CHR 0x27] @ '' does not have magic comment''"

text \<open>Return error if the magic comment does not exist.\<close>

definition shouldHaveMagicComment :: "world \<Rightarrow> string \<Rightarrow> err" where
  "shouldHaveMagicComment w dst =
     (case os_Open w dst of
        Inl e \<Rightarrow> Some e
      | Inr reader \<Rightarrow>
          (let magic = magicComment;
               (n, read, e) = file_Read w dst reader (length magic)
           in if e \<noteq> None \<or> n < length magicComment then Some (no_magic_comment dst)
              else if list_ex (\<lambda>i. magic ! i \<noteq> read ! i) [0..<length magic]
                then Some (no_magic_comment dst)
              else None))"

definition copyFileWithMagicComment :: "world \<Rightarrow> string \<Rightarrow> string \<Rightarrow> err \<times> world" where
  "copyFileWithMagicComment w src dst =
     (case os_Open w src of
        Inl e \<Rightarrow> (Some e, w)
      | Inr reader \<Rightarrow>
          (case os_Create w dst of
             (Some e, w1) \<Rightarrow> (Some e, w1)
           | (None, w1) \<Rightarrow>
               (case file_Write w1 dst magicComment of
                  (Some e, w2) \<Rightarrow> (Some e, w2)
                | (None, w2) \<Rightarrow> io_Copy w2 dst src)))"

text \<open>\<open>installRCFile\<close>; \<open>pu\<close> is package pathutil.\<close>

definition installRCFile ::
  "pathutil \<Rightarrow> world \<Rightarrow> string \<Rightarrow> string \<Rightarrow> string \<Rightarrow> err \<times> world" where
  "installRCFile pu w profileName srcRCFileName dst =
     (case (if Exists w dst then shouldHaveMagicComment w dst else None) of
        Some e \<Rightarrow> (Some e, w)
      | None \<Rightarrow>
          (let (_, w1) = os_Remove w dst
           in if Exists w1 dst then (Some (''failed to remove '' @ dst), w1)
              else (let src = RCFileOf pu profileName srcRCFileName
                    in if \<not> Exists w1 src then (None, w1)
                       else copyFileWithMagicComment w1 src dst)))"

subsection \<open>encodeReposPath\<close>

definition encodeReposPath :: "string \<Rightarrow> string" where
  "encodeReposPath reposPath =
     Replace (NewReplacer [(CHR ''_'', ''__''), (CHR ''/'', ''_'')]) reposPath"

subsection \<open>The per-repository workers\<close>

text \<open>
  A worker is modelled by the list of results it sends on \<open>done\<close>, and the world it
  leaves. The calls of \<open>logger\<close> are left out everywhere.

  The function literal that \<open>copyGitRepos\<close> hands to \<open>ForEach\<close>: the values that
  \<open>os.MkdirAll\<close> and \<open>ioutil.WriteFile\<close> return are dropped.
\<close>

definition copyGitRepos_file :: "string \<Rightarrow> git_File \<Rightarrow> world \<Rightarrow> err \<times> world" where
  "copyGitRepos_file dst file w =
     (case Mode_ToOSFileMode file of
        Inl e \<Rightarrow> (Some (''failed to convert file mode: '' @ e), w)
      | Inr osMode \<Rightarrow>
          (case Contents file of
             Inl e \<Rightarrow> (Some (''failed get file contents: '' @ e), w)
           | Inr contents \<Rightarrow>
               (let filename = Join dst (Name file);
                    dir = Split_dir filename;
                    (_, w1) = os_MkdirAll w dir;
                    (_, w2) = ioutil_WriteFile w1 filename contents osMode
                in (None, w2))))"

definition copyGitRepos ::
  "rebuild_env \<Rightarrow> world \<Rightarrow> Repos \<Rightarrow> string \<Rightarrow> copyReposResult list \<times> world" where
  "copyGitRepos env w repos startDir =
     (let src = FullReposPathOf (pathutil env) (Path repos);
          dst = Join startDir (encodeReposPath (Path repos))
      in case PlainOpen env src of
           Inl e \<Rightarrow>
             ([\<lparr>copy_err = Some (''failed to open repository: '' @ e), copy_repos = repos\<rparr>], w)
         | Inr r \<Rightarrow>
             (let commit = NewHash env (Version repos)
              in case CommitObject r commit of
                   Inl e \<Rightarrow>
                     ([\<lparr>copy_err = Some (''failed to get HEAD commit object: '' @ e),
                        copy_repos = repos\<rparr>], w)
                 | Inr commitObj \<Rightarrow>
                     (case TreeObject r (TreeHash commitObj) of
                        Inl e \<Rightarrow>
                          ([\<lparr>copy_err = Some (''failed to get tree '' @ commit @ '': '' @ e),
                             copy_repos = repos\<rparr>], w)
                      | Inr tree \<Rightarrow>
                          (case ForEach tree (copyGitRepos_file dst) w of
                             (Some e, w1) \<Rightarrow> ([\<lparr>copy_err = Some e, copy_repos = repos\<rparr>], w1)
                           | (None, w1) \<Rightarrow> ([\<lparr>copy_err = None, copy_repos = repos\<rparr>], w1)))))"

text \<open>\<open>copyutil.CopyDir\<close> is known by its result only.\<close>

definition copyStaticRepos ::
  "rebuild_env \<Rightarrow> world \<Rightarrow> Repos \<Rightarrow> string \<Rightarrow> copyReposResult list \<times> world" where
  "copyStaticRepos env w repos startDir =
     (let src = FullReposPathOf (pathutil env) (Path repos);
          dst = Join startDir (encodeReposPath (Path repos))
      in case CopyDir env src dst of
           Some e \<Rightarrow>
             ([\<lparr>copy_err = Some (''failed to copy static directory: '' @ e), copy_repos = repos\<rparr>], w)
         | None \<Rightarrow> ([\<lparr>copy_err = None, copy_repos = repos\<rparr>], w))"

subsection \<open>removeStartDir and getActiveProfileRepos\<close>

text \<open>
  The channel that \<open>removeStartDir\<close> returns is modelled by the error the background
  \<open>os.RemoveAll\<close> will send on it; \<open>None\<close> is the nil channel. \<open>randomString\<close> is a
  parameter.
\<close>

definition removeStartDir ::
  "rebuild_env \<Rightarrow> world \<Rightarrow> string \<Rightarrow> (err option \<times> err) \<times> world" where
  "removeStartDir env w startDir =
     (let oldDir = startDir @ ''.old'' @ randomString env
      in case os_Rename w startDir oldDir of
           (Some e, w1) \<Rightarrow> ((None, Some e), w1)
         | (None, w1) \<Rightarrow> ((Some (RemoveAll env oldDir), None), issue (Go_RemoveAll oldDir) w1))"

definition getActiveProfileRepos :: "rebuild_env \<Rightarrow> LockJSON \<Rightarrow> string + Repos list" where
  "getActiveProfileRepos env lockJSON =
     (case Profiles_FindByName env lockJSON (ActiveProfile lockJSON) of
        Inl e \<Rightarrow> Inl e
      | Inr profile \<Rightarrow> GetReposListByProfile env lockJSON profile)"

subsection \<open>doRebuild\<close>

text \<open>The loop over \<open>pathutil.LookUpVimrcOrGvimrc()\<close> (lines 62 to 68).\<close>

fun check_rc_files :: "world \<Rightarrow> string list \<Rightarrow> err" where
  "check_rc_files w [] = None"
| "check_rc_files w (file # files) =
     (case shouldHaveMagicComment w file of
        Some e \<Rightarrow> Some (''already exists user vimrc or gvimrc: '' @ e)
      | None \<Rightarrow> check_rc_files w files)"

text \<open>
  The body of the loop that starts the copies (lines 101 to 112): what the job will put on
  \<open>copyDone\<close>. A worker runs on the world it finds when it starts. The result for a
  repository of another type is sent by the loop itself; it counts as a job that
  completes at once. Any order of arrival is allowed for, which covers the orders the
  scheduler can produce.
\<close>

definition start_copy ::
  "rebuild_env \<Rightarrow> string \<Rightarrow> Repos \<Rightarrow> world \<Rightarrow> copyReposResult list \<times> world" where
  "start_copy env startDir r w =
     (if Type r = ReposGitType
      then (fst (copyGitRepos env w r startDir), issue (Go_copyGitRepos r) w)
      else if Type r = ReposStaticType
      then (fst (copyStaticRepos env w r startDir), issue (Go_copyStaticRepos r) w)
      else ([\<lparr>copy_err = Some (''invalid repository type: '' @ Type r), copy_repos = r\<rparr>], w))"

fun start_copies ::
  "rebuild_env \<Rightarrow> string \<Rightarrow> Repos list \<Rightarrow> world \<Rightarrow> copyReposResult list list \<times> world" where
  "start_copies env startDir [] w = ([], w)"
| "start_copies env startDir (r # rs) w =
     (let (job, w1) = start_copy env startDir r w;
          (jobs, w2) = start_copies env startDir rs w1
      in (job # jobs, w2))"

definition copy_failed :: "copyReposResult \<Rightarrow> string \<Rightarrow> string" where
  "copy_failed result e =
     ''failed to copy repository '' @ [CHR 0x27] @ Path (copy_repos result) @ [CHR 0x27] @ '': '' @ e"

text \<open>
  The loop that waits for the copies (lines 121 to 126): \<open>n\<close> receives are still to do,
  \<open>ch\<close> is what the channel will deliver, \<open>received\<close> what has been received.
\<close>

fun wait_copy ::
  "nat \<Rightarrow> copyReposResult list \<Rightarrow> copyReposResult list \<Rightarrow> loop_exit \<times> copyReposResult list" where
  "wait_copy 0 ch received = (Completed, received)"
| "wait_copy (Suc n) [] received = (Stuck, received)"
| "wait_copy (Suc n) (result # ch) received =
     (case copy_err result of
        Some e \<Rightarrow> (Exit (Some (copy_failed result e)), received @ [result])
      | None \<Rightarrow> wait_copy n ch (received @ [result]))"

text \<open>
  \<open>doRebuild\<close> in its three parts. Lines 47 to 81: read the lock file, check the
  startup files that exist, install the two startup files. \<open>Inl\<close> is the error that
  \<open>doRebuild\<close> returns there.
\<close>

definition preflight :: "rebuild_env \<Rightarrow> world \<Rightarrow> (string \<times> world) + (Repos list \<times> world)" where
  "preflight env w =
     (let vimDir = VimDir (pathutil env)
      in case lockjson_Read env of
           Inl e \<Rightarrow> Inl (''could not read lock.json: '' @ e, w)
         | Inr lockJSON \<Rightarrow>
             (case getActiveProfileRepos env lockJSON of
                Inl e \<Rightarrow> Inl (e, w)
              | Inr reposList \<Rightarrow>
                  (case check_rc_files w (LookUpVimrcOrGvimrc (pathutil env)) of
                     Some e \<Rightarrow> Inl (e, w)
                   | None \<Rightarrow>
                       (case installRCFile (pathutil env) w (ActiveProfile lockJSON)
                               ''vimrc.vim'' (Join vimDir ''vimrc'') of
                          (Some e, w1) \<Rightarrow> Inl (e, w1)
                        | (None, w1) \<Rightarrow>
                            (case installRCFile (pathutil env) w1 (ActiveProfile lockJSON)
                                    ''gvimrc.vim'' (Join vimDir ''gvimrc'') of
                               (Some e, w2) \<Rightarrow> Inl (e, w2)
                             | (None, w2) \<Rightarrow> Inr (reposList, w2))))))"

text \<open>Lines 83 to 95: retire the start directory and make it anew.\<close>

definition retire :: "rebuild_env \<Rightarrow> world \<Rightarrow> (string \<times> world) + (err option \<times> world)" where
  "retire env w =
     (let startDir = VimVoltStartDir (pathutil env)
      in case (if Exists w startDir then removeStartDir env w startDir else ((None, None), w)) of
           ((removeDone, Some e), w1) \<Rightarrow> Inl (e, w1)
         | ((removeDone, None), w1) \<Rightarrow>
             (case os_MkdirAll w1 startDir of
                (Some e, w2) \<Rightarrow> Inl (e, w2)
              | (None, w2) \<Rightarrow> Inr (removeDone, w2)))"

definition remove_failed :: "string \<Rightarrow> string \<Rightarrow> string" where
  "remove_failed startDir e =
     ''failed to remove '' @ [CHR 0x27] @ startDir @ [CHR 0x27] @ '': '' @ e"

text \<open>Lines 97 to 133: start the copies, wait for the removal, wait for the copies.\<close>

definition copy_all ::
  "rebuild_env \<Rightarrow> Repos list \<Rightarrow> err option \<Rightarrow> world
     \<Rightarrow> err outcome \<times> copyReposResult list \<times> world" where
  "copy_all env reposList removeDone w =
     (let startDir = VimVoltStartDir (pathutil env);
          (jobs, w1) = start_copies env startDir reposList w;
          copyDone = arrivals jobs (schedule env);
          removeErr = (case removeDone of None \<Rightarrow> None | Some e \<Rightarrow> e)
      in case wait_copy (length reposList) copyDone [] of
           (Exit e, received) \<Rightarrow> (Returns e, received, w1)
         | (Stuck, received) \<Rightarrow> (Blocks, received, w1)
         | (Completed, received) \<Rightarrow>
             (case removeErr of
                Some e \<Rightarrow> (Returns (Some (remove_failed startDir e)), received, w1)
              | None \<Rightarrow> (Returns None, received, w1)))"

text \<open>\<open>doRebuild\<close>: what it returns, the results it received from \<open>copyDone\<close>, the world.\<close>

definition doRebuild ::
  "rebuild_env \<Rightarrow> world \<Rightarrow> err outcome \<times> copyReposResult list \<times> world" where
  "doRebuild env w =
     (case preflight env w of
        Inl (e, w1) \<Rightarrow> (Returns (Some e), [], w1)
      | Inr (reposList, w1) \<Rightarrow>
          (case retire env w1 of
             Inl (e, w2) \<Rightarrow> (Returns (Some e), [], w2)
           | Inr (removeDone, w2) \<Rightarrow> copy_all env reposList removeDone w2))"

text \<open>\<open>Rebuild\<close>: the exit code (\<open>transaction.Remove\<close> is left out).\<close>

definition Rebuild :: "rebuild_env \<Rightarrow> world \<Rightarrow> int outcome" where
  "Rebuild env w =
     (case transaction_Create env of
        Some e \<Rightarrow> Returns 10
      | None \<Rightarrow>
          (case fst (doRebuild env w) of
             Blocks \<Rightarrow> Blocks
           | Returns (Some e) \<Rightarrow> Returns 11
           | Returns None \<Rightarrow> Returns 0))"

section \<open>cmd/builder/symlink.go\<close>

text \<open>
  \<open>actionReposResult\<close>: its fields \<open>err\<close> and \<open>repos\<close> (a pointer, so it may be nil)
  are written \<open>action_err\<close> and \<open>action_repos\<close>. \<open>BuildInfo\<close> is read as far as
  \<open>Build\<close> writes it.
\<close>

record actionReposResult =
  action_err :: err
  action_repos :: "Repos option"

record BuildInfo =
  BuildInfo_Repos :: "Repos list"

text \<open>
  What the methods of \<open>BaseBuilder\<close>, package plugconf, \<open>BuildInfo.Write\<close> and the
  host's link calls return is a parameter.

  \<open>copyBuilder.updateBareGitRepos\<close> is not among the sources either. \<open>installRepos\<close>
  makes a channel \<open>updateDone\<close>, calls it with that channel and then receives from the
  channel. What the function does with the channel is not known, so the three lines are
  one parameter: the result that the receive yields, or \<open>Blocks\<close> when the call or the
  receive never comes back.
\<close>

record build_env = env +
  getCurrentProfileAndReposList :: "LockJSON \<Rightarrow> Profile \<times> Repos list \<times> err"
  installVimrcAndGvimrc :: "string \<Rightarrow> string \<Rightarrow> string \<Rightarrow> bool \<Rightarrow> bool \<Rightarrow> err"
  updateBareGitRepos ::
    "Repository \<Rightarrow> string \<Rightarrow> string \<Rightarrow> Repos \<Rightarrow> string \<Rightarrow> actionReposResult outcome"
  GOOS :: string
  mklink :: "string \<Rightarrow> string \<Rightarrow> err"
  os_Symlink :: "string \<Rightarrow> string \<Rightarrow> err"
  helptags :: "string \<Rightarrow> string \<Rightarrow> err"
  GenerateBundlePlugconf :: "Repos list \<Rightarrow> string \<times> err"
  buildInfo_Write :: "BuildInfo \<Rightarrow> err"

text \<open>The verb \<open>%q\<close> of \<open>fmt.Errorf\<close>: the string in double quotes (escapes left out).\<close>

definition quoted :: "string \<Rightarrow> string" where
  "quoted s = [CHR 0x22] @ s @ [CHR 0x22]"

definition symlink :: "build_env \<Rightarrow> string \<Rightarrow> string \<Rightarrow> err" where
  "symlink env src dst =
     (if GOOS env = ''windows'' then mklink env dst src else os_Symlink env src dst)"

text \<open>
  \<open>installRepos\<close>: the results it sends on \<open>done\<close>, and whether it runs to its end.
  \<open>bare_step\<close> is where the first \<open>if\<close> of the function leaves it: a result was sent
  and the function returned, or it waits for ever, or it goes on with \<open>copied\<close> set.
\<close>

datatype bare_step = Sent actionReposResult | Hangs | Copied bool

definition installRepos ::
  "build_env \<Rightarrow> Repos \<Rightarrow> string \<Rightarrow> actionReposResult list \<times> bool" where
  "installRepos env repos vimExePath =
     (let src = FullReposPathOf (pathutil env) (Path repos);
          dst = PackReposPathOf (pathutil env) (Path repos);
          step =
            (if Type repos = ReposGitType
             then (case PlainOpen env src of
                     Inl e \<Rightarrow>
                       Sent \<lparr>action_err = Some (''repository '' @ quoted src @ '': '' @ e),
                             action_repos = None\<rparr>
                   | Inr r \<Rightarrow>
                       (case Config_Core_IsBare r of
                          Inl e \<Rightarrow>
                            Sent \<lparr>action_err =
                                    Some (''failed to get repository config of '' @ quoted src
                                          @ '': '' @ e),
                                  action_repos = None\<rparr>
                        | Inr isBare \<Rightarrow>
                            (if isBare
                             then (case updateBareGitRepos env r src dst repos vimExePath of
                                     Blocks \<Rightarrow> Hangs
                                   | Returns result \<Rightarrow>
                                       (if action_err result \<noteq> None
                                        then Sent \<lparr>action_err = action_err result,
                                                   action_repos = None\<rparr>
                                        else Copied True))
                             else Copied False)))
             else Copied False)
      in case step of
           Sent result \<Rightarrow> ([result], True)
         | Hangs \<Rightarrow> ([], False)
         | Copied copied \<Rightarrow>
             (if \<not> copied
              then (case symlink env src dst of
                      Some e \<Rightarrow> ([\<lparr>action_err = Some e, action_repos = None\<rparr>], True)
                    | None \<Rightarrow>
                        (case helptags env (Path repos) vimExePath of
                           Some e \<Rightarrow> ([\<lparr>action_err = Some e, action_repos = None\<rparr>], True)
                         | None \<Rightarrow>
                             ([\<lparr>action_err = None, action_repos = Some repos\<rparr>], True)))
              else ([\<lparr>action_err = None, action_repos = Some repos\<rparr>], True)))"

text \<open>
  The loop of \<open>Build\<close> that starts the workers and fills \<open>buildInfo.Repos\<close> (lines 68
  to 76).
\<close>

fun start_installs ::
  "build_env \<Rightarrow> string \<Rightarrow> Repos list \<Rightarrow> world \<Rightarrow> actionReposResult list list \<times> world" where
  "start_installs env vimExePath [] w = ([], w)"
| "start_installs env vimExePath (r # rs) w =
     (let job = fst (installRepos env r vimExePath);
          (jobs, w1) = start_installs env vimExePath rs (issue (Go_installRepos r) w)
      in (job # jobs, w1))"

text \<open>
  The loop of \<open>Build\<close> that waits for the workers (lines 77 to 85). \<open>e\<close> is the
  variable \<open>err\<close> of \<open>Build\<close>, which is what the loop returns on a failed result.
\<close>

fun wait_done ::
  "err \<Rightarrow> nat \<Rightarrow> actionReposResult list \<Rightarrow> actionReposResult list
     \<Rightarrow> loop_exit \<times> actionReposResult list" where
  "wait_done e 0 ch received = (Completed, received)"
| "wait_done e (Suc n) [] received = (Stuck, received)"
| "wait_done e (Suc n) (result # ch) received =
     (if action_err result \<noteq> None then (Exit e, received @ [result])
      else wait_done e n ch (received @ [result]))"

text \<open>
  \<open>Build\<close>: what it returns, the results it received from \<open>done\<close>, \<open>buildInfo\<close> and
  the world afterwards. The parameter \<open>buildReposMap\<close> is not used by the function.
  File modes are written in decimal (\<open>0644\<close> is 420).
\<close>

definition Build ::
  "build_env \<Rightarrow> world \<Rightarrow> BuildInfo
     \<Rightarrow> err outcome \<times> actionReposResult list \<times> BuildInfo \<times> world" where
  "Build env w buildInfo =
     (case snd (VimExecutable (pathutil env)) of
        Some e \<Rightarrow> (Returns (Some e), [], buildInfo, w)
      | None \<Rightarrow>
     (case lockjson_Read env of
        Inl e \<Rightarrow> (Returns (Some (''could not read lock.json: '' @ e)), [], buildInfo, w)
      | Inr lockJSON \<Rightarrow>
     (case getCurrentProfileAndReposList env lockJSON of
        (profile, reposList, Some e) \<Rightarrow> (Returns (Some e), [], buildInfo, w)
      | (profile, reposList, None) \<Rightarrow>
     (let vimDir = VimDir (pathutil env);
          vimrcPath = Join vimDir (Vimrc (pathutil env));
          gvimrcPath = Join vimDir (Gvimrc (pathutil env))
      in case installVimrcAndGvimrc env (CurrentProfileName lockJSON) vimrcPath gvimrcPath
                (UseVimrc profile) (UseGvimrc profile) of
           Some e \<Rightarrow> (Returns (Some e), [], buildInfo, w)
         | None \<Rightarrow>
     (let optDir = VimVoltOptDir (pathutil env);
          (_, w1) = os_MkdirAll w optDir
      in if \<not> Exists w1 optDir
         then (Returns (Some (''could not create '' @ optDir)), [], buildInfo, w1)
         else
     (let (vimExePath, err) = VimExecutable (pathutil env)
      in if err \<noteq> None then (Returns err, [], buildInfo, w1)
         else
     (let (jobs, w2) = start_installs env vimExePath reposList w1;
          buildInfo1 = buildInfo\<lparr>BuildInfo_Repos :=
            map (\<lambda>r. \<lparr>Type = Type r, Path = Path r, Version = Version r\<rparr>) reposList\<rparr>;
          done = arrivals jobs (schedule env)
      in case wait_done err (length reposList) done [] of
           (Exit e, received) \<Rightarrow> (Returns e, received, buildInfo1, w2)
         | (Stuck, received) \<Rightarrow> (Blocks, received, buildInfo1, w2)
         | (Completed, received) \<Rightarrow>
     (case GenerateBundlePlugconf env reposList of
        (content, Some e) \<Rightarrow> (Returns (Some e), received, buildInfo1, w2)
      | (content, None) \<Rightarrow>
     (let (_, w3) = os_MkdirAll w2 (filepath_Dir (BundledPlugConf (pathutil env)))
      in case ioutil_WriteFile w3 (BundledPlugConf (pathutil env)) content 420 of
           (Some e, w4) \<Rightarrow> (Returns (Some e), received, buildInfo1, w4)
         | (None, w4) \<Rightarrow> (Returns (buildInfo_Write env buildInfo1), received, buildInfo1, w4)
     )))))))))"

section \<open>Notions for the properties\<close>

text \<open>
  The results of \<open>ch\<close> up to and with the first one that carries an error; all of
  \<open>ch\<close> when none does. \<open>errof\<close> reads the error of a result.
\<close>

definition first_error :: "('r \<Rightarrow> err) \<Rightarrow> 'r list \<Rightarrow> nat" where
  "first_error errof ch = length (takeWhile (\<lambda>r. errof r = None) ch)"

definition until_first_error :: "('r \<Rightarrow> err) \<Rightarrow> 'r list \<Rightarrow> 'r list" where
  "until_first_error errof ch = take (Suc (first_error errof ch)) ch"


subsection \<open>Sample runs\<close>

definition no_faults :: os_faults where
  "no_faults =
     \<lparr>open_fault = (\<lambda>_. None), read_fault = (\<lambda>_. None), remove_fault = (\<lambda>_. None),
      create_fault = (\<lambda>_. None), write_fault = (\<lambda>_. None), rename_fault = (\<lambda>_. None),
      mkdir_fault = (\<lambda>_. None)\<rparr>"

definition home :: pathutil where
  "home =
     \<lparr>VimDir = ''/u/.vim'',
      VimVoltStartDir = ''/u/.vim/start'',
      VimVoltOptDir = ''/u/.vim/opt'',
      LookUpVimrcOrGvimrc = [],
      RCFileOf = (\<lambda>profileName name. ''/u/volt/rc/'' @ profileName @ ''/'' @ name),
      FullReposPathOf = (\<lambda>reposPath. ''/u/volt/repos/'' @ reposPath),
      PackReposPathOf = (\<lambda>reposPath. ''/u/.vim/opt/'' @ encodeReposPath reposPath),
      VimExecutable = (''/usr/bin/vim'', None),
      BundledPlugConf = ''/u/.vim/start/system/plugin/bundled_plugconf.vim'',
      Vimrc = ''vimrc'',
      Gvimrc = ''gvimrc''\<rparr>"

text \<open>A user's own vimrc; a profile with a vimrc of its own and no gvimrc.\<close>

definition user_vimrc_world :: world where
  "user_vimrc_world =
     \<lparr>fs = [''/u/.vim/vimrc'' \<mapsto> File ''set nocompatible''], faults = no_faults, log = []\<rparr>"

definition profile_vimrc_world :: world where
  "profile_vimrc_world =
     \<lparr>fs = [''/u/volt/rc/default/vimrc.vim'' \<mapsto> File ''syntax on''],
      faults = no_faults, log = []\<rparr>"

text \<open>Three repositories: one of a type that is neither git nor static, a static one, a
  git one.\<close>

definition repos_hg :: Repos where
  "repos_hg = \<lparr>Type = ''hg'', Path = ''example.org/u/a'', Version = []\<rparr>"

definition repos_static :: Repos where
  "repos_static = \<lparr>Type = ''static'', Path = ''localhost/local/b'', Version = []\<rparr>"

definition repos_git :: Repos where
  "repos_git = \<lparr>Type = ''git'', Path = ''github.com/u/c'', Version = ''c0ffee''\<rparr>"

text \<open>A git repository whose pinned commit has one file, as a working copy and as a bare
  repository.\<close>

definition one_file_repository :: Repository where
  "one_file_repository =
     \<lparr>CommitObject = (\<lambda>_. Inr \<lparr>TreeHash = ''7ree''\<rparr>),
      TreeObject = (\<lambda>_. Inr [Inr \<lparr>Name = ''plugin/c.vim'', Mode_ToOSFileMode = Inr 420,
                                    Contents = Inr ''echo 1''\<rparr>]),
      Config_Core_IsBare = Inr False\<rparr>"


text \<open>
  A full rebuild of the profile \<open>default\<close> with two repositories, of type hg and
  static; the directory copy succeeds, and deleting the retired directory fails.
\<close>

definition rebuild_run :: rebuild_env where
  "rebuild_run =
     \<lparr>pathutil = home,
      lockjson_Read = Inr \<lparr>ActiveProfile = ''default'', CurrentProfileName = ''default''\<rparr>,
      PlainOpen = (\<lambda>_. Inr one_file_repository),
      NewHash = (\<lambda>s. s),
      schedule = [],
      transaction_Create = None,
      Profiles_FindByName = (\<lambda>_ _. Inr \<lparr>UseVimrc = True, UseGvimrc = True\<rparr>),
      GetReposListByProfile = (\<lambda>_ _. Inr [repos_hg, repos_static]),
      CopyDir = (\<lambda>_ _. None),
      RemoveAll = (\<lambda>_. Some ''permission denied''),
      randomString = ''1z141z4''\<rparr>"

text \<open>The start directory holds an earlier build; in the second world it cannot be
  renamed.\<close>

definition built_world :: world where
  "built_world =
     \<lparr>fs = [''/u/.vim/start'' \<mapsto> Dir, ''/u/.vim/start/old/plugin/o.vim'' \<mapsto> File ''echo 0''],
      faults = no_faults, log = []\<rparr>"

definition locked_world :: world where
  "locked_world =
     built_world\<lparr>faults := no_faults\<lparr>rename_fault :=
       (\<lambda>path. if path = ''/u/.vim/start'' then Some ''permission denied'' else None)\<rparr>\<rparr>"

text \<open>A world where no directory and no file can be made.\<close>

definition readonly_world :: world where
  "readonly_world =
     \<lparr>fs = [''/u/.vim/start'' \<mapsto> Dir],
      faults = no_faults\<lparr>
        mkdir_fault := (\<lambda>_. Some ''permission denied''),
        create_fault := (\<lambda>_. Some ''permission denied'')\<rparr>,
      log = []\<rparr>"

definition empty_world :: world where
  "empty_world = \<lparr>fs = Map.empty, faults = no_faults, log = []\<rparr>"

text \<open>
  A link build of one git repository. In \<open>link_run\<close> it is a working copy and the link
  cannot be made; in \<open>bare_run\<close> it is a bare repository whose update fails, with
  the failure received from \<open>updateDone\<close>.
\<close>

definition link_run :: build_env where
  "link_run =
     \<lparr>pathutil = home,
      lockjson_Read = Inr \<lparr>ActiveProfile = ''default'', CurrentProfileName = ''default''\<rparr>,
      PlainOpen = (\<lambda>_. Inr one_file_repository),
      NewHash = (\<lambda>s. s),
      schedule = [],
      getCurrentProfileAndReposList =
        (\<lambda>_. (\<lparr>UseVimrc = False, UseGvimrc = False\<rparr>, [repos_git], None)),
      installVimrcAndGvimrc = (\<lambda>_ _ _ _ _. None),
      updateBareGitRepos =
        (\<lambda>_ _ _ repos _. Returns \<lparr>action_err = None, action_repos = Some repos\<rparr>),
      GOOS = ''linux'',
      mklink = (\<lambda>_ _. None),
      os_Symlink = (\<lambda>_ _. Some ''file exists''),
      helptags = (\<lambda>_ _. None),
      GenerateBundlePlugconf = (\<lambda>_. ([], None)),
      buildInfo_Write = (\<lambda>_. None)\<rparr>"


section \<open>Properties\<close>

subsection \<open>Completion order, arrivals and the result loops\<close>

text \<open>
  Whatever the scheduler does, every job completes once: the channel delivers what the
  jobs sent, each result once. A result loop receives what the channel delivers up to
  and with the first result that carries an error.
\<close>

lemma set_completion_order: "set (completion_order n sched) = {0..<n}"
  by (auto simp: completion_order_def)

lemma distinct_completion_order: "distinct (completion_order n sched)"
  by (auto simp: completion_order_def)

lemma length_completion_order: "length (completion_order n sched) = n"
proof -
  have "length (completion_order n sched) = card (set (completion_order n sched))"
    by (simp add: distinct_card distinct_completion_order)
  then show ?thesis by (simp add: set_completion_order)
qed

lemma set_arrivals: "set (arrivals jobs sched) = (\<Union>job \<in> set jobs. set job)"
proof -
  have "set (arrivals jobs sched) = (\<Union>i \<in> {0..<length jobs}. set (jobs ! i))"
    by (simp add: arrivals_def set_completion_order)
  also have "\<dots> = (\<Union>job \<in> set jobs. set job)"
  proof -
    have "set jobs = (\<lambda>i. jobs ! i) ` {0..<length jobs}"
      by (auto simp: set_conv_nth)
    then show ?thesis by simp
  qed
  finally show ?thesis .
qed


lemma length_concat_eq:
  "(\<And>x. x \<in> set xs \<Longrightarrow> length (f x) = 1) \<Longrightarrow> length (concat (map f xs)) = length xs"
  by (induction xs) auto


lemma length_arrivals_eq:
  assumes "\<And>job. job \<in> set jobs \<Longrightarrow> length job = 1"
  shows "length (arrivals jobs sched) = length jobs"
proof -
  have "length (concat (map (\<lambda>i. jobs ! i) (completion_order (length jobs) sched)))
        = length (completion_order (length jobs) sched)"
    using assms by (intro length_concat_eq) (auto simp: set_completion_order)
  then show ?thesis by (simp add: arrivals_def length_completion_order)
qed

lemma first_error_less:
  "(first_error errof ch < length ch) = (\<exists>r \<in> set ch. errof r \<noteq> None)"
  unfolding first_error_def by (induction ch) auto

lemma first_error_err:
  "first_error errof ch < length ch \<Longrightarrow> errof (ch ! first_error errof ch) \<noteq> None"
  unfolding first_error_def by (rule nth_length_takeWhile)

lemma last_until_first_error:
  "first_error errof ch < length ch \<Longrightarrow>
   last (until_first_error errof ch) = ch ! first_error errof ch"
  by (simp add: until_first_error_def take_Suc_conv_app_nth)





lemma wait_copy_received:
  "length ch \<le> n \<Longrightarrow>
   snd (wait_copy n ch received) = received @ until_first_error copy_err ch"
proof (induction n ch received rule: wait_copy.induct)
  case (1 ch received)
  then show ?case by (simp add: until_first_error_def first_error_def)
next
  case (2 n received)
  then show ?case by (simp add: until_first_error_def)
next
  case (3 n result ch received)
  then show ?case
    by (cases "copy_err result") (simp_all add: until_first_error_def first_error_def)
qed

lemma wait_copy_exit:
  "length ch = n \<Longrightarrow>
   fst (wait_copy n ch received) =
     (if first_error copy_err ch < length ch
      then Exit (Some (copy_failed (ch ! first_error copy_err ch)
                         (the (copy_err (ch ! first_error copy_err ch)))))
      else Completed)"
proof (induction n ch received rule: wait_copy.induct)
  case (1 ch received)
  then show ?case by (simp add: first_error_def)
next
  case (2 n received)
  then show ?case by simp
next
  case (3 n result ch received)
  then show ?case by (cases "copy_err result") (simp_all add: first_error_def)
qed



subsection \<open>What the workers send\<close>

text \<open>
  The two copy workers send one result on every path. \<open>installRepos\<close> sends one
  result on every path on which it runs to its end, and it runs to its end unless the
  repository is a bare git repository whose update never delivers its result. The
  callback of the tree walk reports no error for a file whose mode and content are read,
  whatever becomes of the directory and of the write. Swapping a slash and the underscore
  next to it does not change the escaped path.
\<close>

lemma copyGitRepos_one: "length (fst (copyGitRepos env w repos startDir)) = 1"
  by (simp add: copyGitRepos_def Let_def split: sum.splits prod.splits option.splits)

lemma copyStaticRepos_one: "length (fst (copyStaticRepos env w repos startDir)) = 1"
  by (simp add: copyStaticRepos_def Let_def split: option.splits)




lemma start_copy_one: "length (fst (start_copy env startDir r w)) = 1"
  by (simp add: start_copy_def copyGitRepos_one copyStaticRepos_one)

lemma length_start_copies: "length (fst (start_copies env startDir rs w)) = length rs"
  by (induction rs arbitrary: w) (simp_all add: split_beta Let_def)

lemma start_copies_one:
  "job \<in> set (fst (start_copies env startDir rs w)) \<Longrightarrow> length job = 1"
proof (induction rs arbitrary: w)
  case Nil
  then show ?case by simp
next
  case (Cons r rs)
  then show ?case
    using start_copy_one[of env startDir r w]
    by (auto simp: split_beta Let_def)
qed

lemma start_copies_invalid:
  "r \<in> set rs \<Longrightarrow> Type r \<noteq> ReposGitType \<Longrightarrow> Type r \<noteq> ReposStaticType \<Longrightarrow>
   [\<lparr>copy_err = Some (''invalid repository type: '' @ Type r), copy_repos = r\<rparr>]
     \<in> set (fst (start_copies env startDir rs w))"
proof (induction rs arbitrary: w)
  case Nil
  then show ?case by simp
next
  case (Cons a rs)
  then show ?case
    by (auto simp: split_beta Let_def start_copy_def)
qed

lemma length_copyDone:
  "length (arrivals (fst (start_copies env startDir rs w)) sched) = length rs"
  using length_arrivals_eq[of "fst (start_copies env startDir rs w)" sched]
  by (simp add: start_copies_one length_start_copies)






lemma copyGitRepos_file_drops_write_errors:
  "Mode_ToOSFileMode file = Inr osMode \<Longrightarrow> Contents file = Inr contents \<Longrightarrow>
   fst (copyGitRepos_file dst file w) = None"
  by (simp add: copyGitRepos_file_def Let_def split_beta)

lemma Replace_append: "Replace r (xs @ ys) = Replace r xs @ Replace r ys"
  by (induction xs) simp_all

lemma encodeReposPath_collides:
  "encodeReposPath (xs @ ''/_'' @ ys) = encodeReposPath (xs @ ''_/'' @ ys)"
  by (simp add: encodeReposPath_def Replace_append)

subsection \<open>The parts of doRebuild\<close>

lemma preflight_reposList:
  assumes "preflight env w = Inr (rl, w1)"
      and "lockjson_Read env = Inr lockJSON"
      and "getActiveProfileRepos env lockJSON = Inr reposList"
  shows "rl = reposList"
  using assms
  by (auto simp: preflight_def Let_def split: sum.splits option.splits prod.splits)

lemma copy_all_received:
  "fst (snd (copy_all env reposList removeDone w)) =
     until_first_error copy_err
       (arrivals (fst (start_copies env (VimVoltStartDir (pathutil env)) reposList w)) (schedule env))"
proof -
  let ?ch = "arrivals (fst (start_copies env (VimVoltStartDir (pathutil env)) reposList w)) (schedule env)"
  have "snd (wait_copy (length reposList) ?ch []) = until_first_error copy_err ?ch"
    using wait_copy_received[of ?ch "length reposList" "[]"] by (simp add: length_copyDone)
  then show ?thesis
    by (simp add: copy_all_def Let_def split_beta split: loop_exit.splits option.splits prod.splits)
qed

lemma copy_all_returns:
  "fst (copy_all env reposList removeDone w) =
     (let ch = arrivals (fst (start_copies env (VimVoltStartDir (pathutil env)) reposList w)) (schedule env)
      in if first_error copy_err ch < length ch
         then Returns (Some (copy_failed (ch ! first_error copy_err ch)
                               (the (copy_err (ch ! first_error copy_err ch)))))
         else (case removeDone of
                 Some (Some e) \<Rightarrow> Returns (Some (remove_failed (VimVoltStartDir (pathutil env)) e))
               | _ \<Rightarrow> Returns None))"
proof -
  let ?ch = "arrivals (fst (start_copies env (VimVoltStartDir (pathutil env)) reposList w)) (schedule env)"
  have "fst (wait_copy (length reposList) ?ch []) =
     (if first_error copy_err ?ch < length ?ch
      then Exit (Some (copy_failed (?ch ! first_error copy_err ?ch)
                         (the (copy_err (?ch ! first_error copy_err ?ch)))))
      else Completed)"
    by (rule wait_copy_exit) (simp add: length_copyDone)
  then show ?thesis
    by (cases "wait_copy (length reposList) ?ch []")
       (auto simp: copy_all_def Let_def split_beta split: option.splits)
qed

lemma doRebuild_received:
  assumes "preflight env w = Inr (reposList, w1)"
      and "retire env w1 = Inr (removeDone, w2)"
  shows "fst (snd (doRebuild env w)) =
           until_first_error copy_err
             (arrivals (fst (start_copies env (VimVoltStartDir (pathutil env)) reposList w2))
                (schedule env))"
  using assms by (simp add: doRebuild_def copy_all_received)

lemma doRebuild_at_failed_result:
  assumes "preflight env w = Inr (reposList, w1)"
      and "retire env w1 = Inr (removeDone, w2)"
      and "\<exists>result \<in> set (arrivals (fst (start_copies env (VimVoltStartDir (pathutil env))
                                          reposList w2)) (schedule env)).
             copy_err result \<noteq> None"
  shows "\<exists>e. copy_err (last (fst (snd (doRebuild env w)))) = Some e
            \<and> last (fst (snd (doRebuild env w)))
                \<in> set (arrivals (fst (start_copies env (VimVoltStartDir (pathutil env))
                                        reposList w2)) (schedule env))
            \<and> fst (doRebuild env w)
                = Returns (Some (copy_failed (last (fst (snd (doRebuild env w)))) e))"
proof -
  let ?ch = "arrivals (fst (start_copies env (VimVoltStartDir (pathutil env)) reposList w2))
               (schedule env)"
  let ?k = "first_error copy_err ?ch"
  have k: "?k < length ?ch" using assms(3) by (simp add: first_error_less)
  have l: "last (fst (snd (doRebuild env w))) = ?ch ! ?k"
    using doRebuild_received[OF assms(1,2)] last_until_first_error[OF k] by simp
  obtain e where e: "copy_err (?ch ! ?k) = Some e"
    using first_error_err[OF k] by auto
  have "fst (doRebuild env w) = Returns (Some (copy_failed (?ch ! ?k) e))"
    using assms(1,2) k e by (simp add: doRebuild_def copy_all_returns Let_def)
  with l e k show ?thesis by simp
qed


lemma copyFileWithMagicComment_frame:
  "path \<noteq> dst \<Longrightarrow> fs (snd (copyFileWithMagicComment w src dst)) path = fs w path"
  by (auto simp: copyFileWithMagicComment_def os_Open_def os_Create_def file_Write_def
      io_Copy_def issue_def Let_def
      split: option.splits sum.splits prod.splits node.splits if_splits)

lemma installRCFile_frame:
  "path \<noteq> dst \<Longrightarrow> fs (snd (installRCFile pu w profileName srcRCFileName dst)) path = fs w path"
proof -
  assume ne: "path \<noteq> dst"
  obtain e w1 where rm: "os_Remove w dst = (e, w1)" by (cases "os_Remove w dst")
  have w1: "fs w1 path = fs w path"
    using rm ne by (auto simp: os_Remove_def issue_def Let_def split: option.splits if_splits)
  show ?thesis
    using rm w1 copyFileWithMagicComment_frame[OF ne, of w1]
    by (simp add: installRCFile_def Let_def split: option.splits)
qed

lemma preflight_frame:
  assumes "preflight env w = Inr (reposList, w1)"
      and "path \<noteq> Join (VimDir (pathutil env)) ''vimrc''"
      and "path \<noteq> Join (VimDir (pathutil env)) ''gvimrc''"
  shows "fs w1 path = fs w path"
proof -
  from assms(1) have "\<exists>(lockJSON :: LockJSON) wa.
      installRCFile (pathutil env) w (ActiveProfile lockJSON) ''vimrc.vim''
          (Join (VimDir (pathutil env)) ''vimrc'') = (None, wa)
      \<and> installRCFile (pathutil env) wa (ActiveProfile lockJSON) ''gvimrc.vim''
          (Join (VimDir (pathutil env)) ''gvimrc'') = (None, w1)"
    by (auto simp: preflight_def Let_def split: sum.splits option.splits prod.splits)
  then obtain lockJSON :: LockJSON and wa where
    a: "installRCFile (pathutil env) w (ActiveProfile lockJSON) ''vimrc.vim''
          (Join (VimDir (pathutil env)) ''vimrc'') = (None, wa)"
    and b: "installRCFile (pathutil env) wa (ActiveProfile lockJSON) ''gvimrc.vim''
          (Join (VimDir (pathutil env)) ''gvimrc'') = (None, w1)"
    by blast
  have "fs wa path = fs w path"
    using installRCFile_frame[OF assms(2)] a by (metis snd_conv)
  moreover have "fs w1 path = fs wa path"
    using installRCFile_frame[OF assms(3)] b by (metis snd_conv)
  ultimately show ?thesis by simp
qed

lemma preflight_locked:
  "preflight rebuild_run locked_world = Inr ([repos_hg, repos_static],
     locked_world\<lparr>log := [Remove ''/u/.vim/vimrc'', Remove ''/u/.vim/gvimrc'']\<rparr>)"
  by (simp add: preflight_def rebuild_run_def home_def locked_world_def built_world_def
      getActiveProfileRepos_def installRCFile_def Exists_def os_Remove_def issue_def Join_def
      no_faults_def Let_def)

lemma preflight_built:
  "preflight rebuild_run built_world = Inr ([repos_hg, repos_static],
     built_world\<lparr>log := [Remove ''/u/.vim/vimrc'', Remove ''/u/.vim/gvimrc'']\<rparr>)"
  by (simp add: preflight_def rebuild_run_def home_def built_world_def
      getActiveProfileRepos_def installRCFile_def Exists_def os_Remove_def issue_def Join_def
      no_faults_def Let_def)

subsection \<open>The startup files\<close>

lemma mismatch_iff:
  "length xs = length ys \<Longrightarrow> list_ex (\<lambda>i. xs ! i \<noteq> ys ! i) [0..<length xs] = (xs \<noteq> ys)"
proof -
  assume len: "length xs = length ys"
  have "(xs \<noteq> ys) = (\<exists>i<length xs. xs ! i \<noteq> ys ! i)"
    using len nth_equalityI[of xs ys] by blast
  then show ?thesis by (simp add: list_ex_iff Bex_def)
qed

lemma shouldHaveMagicComment_unmarked:
  assumes "fs w dst = Some (File content)"
      and "take (length magicComment) content \<noteq> magicComment"
  shows "\<exists>e. shouldHaveMagicComment w dst = Some e"
proof (cases "open_fault (faults w) dst")
  case (Some e)
  then show ?thesis by (simp add: shouldHaveMagicComment_def os_Open_def)
next
  case None
  note op = None
  show ?thesis
  proof (cases "read_fault (faults w) dst")
    case (Some e)
    with op assms show ?thesis
      by (simp add: shouldHaveMagicComment_def os_Open_def file_Read_def)
  next
    case None
    show ?thesis
    proof (cases "length content < length magicComment")
      case True
      with op None assms show ?thesis
        by (simp add: shouldHaveMagicComment_def os_Open_def file_Read_def Let_def min_def)
    next
      case False
      then have len: "length (take (length magicComment) content) = length magicComment"
        by simp
      have "list_ex (\<lambda>i. magicComment ! i \<noteq> take (length magicComment) content ! i)
              [0..<length magicComment]"
        using mismatch_iff[of magicComment "take (length magicComment) content"] len assms(2)
        by auto
      with op None assms False show ?thesis
        by (simp add: shouldHaveMagicComment_def os_Open_def file_Read_def Let_def min_def)
    qed
  qed
qed

subsection \<open>Build\<close>




subsection \<open>The claims\<close>

text \<open>
  Claim C1. In \<open>Build\<close>, a result that carries an error should make \<open>Build\<close>
  return an error. The loop returns the variable \<open>err\<close> of \<open>Build\<close> instead of the
  result's error, and that variable is nil when the loop runs: in the link build of one
  working copy whose link cannot be made, the worker sends a result with the error
  \<open>file exists\<close>, \<open>Build\<close> receives it, and \<open>Build\<close> returns nil.
\<close>

theorem build_reports_success_on_failed_result:
  "installRepos link_run repos_git ''/usr/bin/vim''
     = ([\<lparr>action_err = Some ''file exists'', action_repos = None\<rparr>], True)
   \<and> fst (snd (Build link_run empty_world \<lparr>BuildInfo_Repos = []\<rparr>))
     = [\<lparr>action_err = Some ''file exists'', action_repos = None\<rparr>]
   \<and> fst (Build link_run empty_world \<lparr>BuildInfo_Repos = []\<rparr>) = Returns None"
proof -
  have "installRepos link_run repos_git ''/usr/bin/vim''
     = ([\<lparr>action_err = Some ''file exists'', action_repos = None\<rparr>], True)"
    by code_simp
  moreover have "fst (snd (Build link_run empty_world \<lparr>BuildInfo_Repos = []\<rparr>))
     = [\<lparr>action_err = Some ''file exists'', action_repos = None\<rparr>]"
    by code_simp
  moreover have "fst (Build link_run empty_world \<lparr>BuildInfo_Repos = []\<rparr>) = Returns None"
    by code_simp
  ultimately show ?thesis by simp
qed




text \<open>
  Claim C3. The escaping is meant to be injective, with \<open>a/b\<close> going to \<open>a_b\<close> and
  \<open>a_b\<close> to \<open>a__b\<close>. The two examples come out as stated, but the code is not
  injective: a slash followed by an underscore and an underscore followed by a slash
  both become three underscores, so the distinct paths \<open>a/_b\<close> and \<open>a_/b\<close> share
  the destination name \<open>a___b\<close>.
\<close>

theorem encodeReposPath_collision:
  "encodeReposPath ''a/b'' = ''a_b''
   \<and> encodeReposPath ''a_b'' = ''a__b''
   \<and> ''a/_b'' \<noteq> ''a_/b''
   \<and> encodeReposPath ''a/_b'' = ''a___b''
   \<and> encodeReposPath ''a_/b'' = ''a___b''"
  by (simp add: encodeReposPath_def)

text \<open>
  Claim C4. A failure on a single file of the tree walk should fail the repository's
  install. That holds for the file mode and for the content; the errors of
  \<open>os.MkdirAll\<close> and \<open>ioutil.WriteFile\<close> are dropped. In a world where no directory
  and no file can be made, the write of the one file of the pinned commit fails, the
  file is not there afterwards, and the worker's result carries no error.
\<close>

theorem failed_write_reported_as_success:
  "fst (ioutil_WriteFile readonly_world ''/u/.vim/start/github.com_u_c/plugin/c.vim'' ''echo 1'' 420)
     = Some ''permission denied''
   \<and> fst (copyGitRepos rebuild_run readonly_world repos_git ''/u/.vim/start'')
     = [\<lparr>copy_err = None, copy_repos = repos_git\<rparr>]
   \<and> log (snd (copyGitRepos rebuild_run readonly_world repos_git ''/u/.vim/start''))
     = [MkdirAll ''/u/.vim/start/github.com_u_c/plugin/'',
        WriteFile ''/u/.vim/start/github.com_u_c/plugin/c.vim'' ''echo 1'' 420]
   \<and> fs (snd (copyGitRepos rebuild_run readonly_world repos_git ''/u/.vim/start''))
        ''/u/.vim/start/github.com_u_c/plugin/c.vim'' = None"
proof -
  have "fst (ioutil_WriteFile readonly_world ''/u/.vim/start/github.com_u_c/plugin/c.vim''
               ''echo 1'' 420) = Some ''permission denied''"
    by code_simp
  moreover have "fst (copyGitRepos rebuild_run readonly_world repos_git ''/u/.vim/start'')
     = [\<lparr>copy_err = None, copy_repos = repos_git\<rparr>]"
    by code_simp
  moreover have "log (snd (copyGitRepos rebuild_run readonly_world repos_git ''/u/.vim/start''))
     = [MkdirAll ''/u/.vim/start/github.com_u_c/plugin/'',
        WriteFile ''/u/.vim/start/github.com_u_c/plugin/c.vim'' ''echo 1'' 420]"
    by code_simp
  moreover have "fs (snd (copyGitRepos rebuild_run readonly_world repos_git ''/u/.vim/start''))
        ''/u/.vim/start/github.com_u_c/plugin/c.vim'' = None"
    by code_simp
  ultimately show ?thesis by simp
qed

text \<open>
  Claim C5. When the destination exists as a file whose first bytes, as many as the
  magic comment has, are not the magic comment (a file shorter than the comment
  included), \<open>installRCFile\<close> returns an error and leaves the world as it was: the
  file's bytes are unchanged and no call that changes the file system was issued.
\<close>

theorem installRCFile_refuses_unmarked:
  assumes "fs w dst = Some (File content)"
      and "take (length magicComment) content \<noteq> magicComment"
  shows "fst (installRCFile pu w profileName srcRCFileName dst) \<noteq> None
         \<and> snd (installRCFile pu w profileName srcRCFileName dst) = w"
proof -
  from shouldHaveMagicComment_unmarked[OF assms]
  obtain e where "shouldHaveMagicComment w dst = Some e" by blast
  with assms(1) show ?thesis by (simp add: installRCFile_def Exists_def)
qed

theorem installRCFile_refuses_unmarked_witness:
  "fs user_vimrc_world ''/u/.vim/vimrc'' = Some (File ''set nocompatible'')
   \<and> take (length magicComment) ''set nocompatible'' \<noteq> magicComment
   \<and> fst (installRCFile home user_vimrc_world ''default'' ''vimrc.vim'' ''/u/.vim/vimrc'') \<noteq> None
   \<and> snd (installRCFile home user_vimrc_world ''default'' ''vimrc.vim'' ''/u/.vim/vimrc'')
       = user_vimrc_world"
proof -
  have a: "fs user_vimrc_world ''/u/.vim/vimrc'' = Some (File ''set nocompatible'')"
    by (simp add: user_vimrc_world_def)
  have b: "take (length magicComment) ''set nocompatible'' \<noteq> magicComment"
    by (simp add: magicComment_def)
  from installRCFile_refuses_unmarked[OF a b, of home "''default''" "''vimrc.vim''"] a b
  show ?thesis by simp
qed

text \<open>
  Claim C6. When the destination is absent: if the profile's own startup file exists
  (and opening it, reading it, creating the destination and writing to it meet no
  failure of the host), \<open>installRCFile\<close> returns no error and the destination holds
  exactly the magic comment followed by the bytes of that file; if the profile has no
  such file, \<open>installRCFile\<close> returns no error, the destination stays absent and the
  file system is as it was.
\<close>

theorem installRCFile_absent_destination:
  assumes "fs w dst = None"
  shows "(\<forall>content.
            fs w (RCFileOf pu profileName srcRCFileName) = Some (File content)
            \<and> open_fault (faults w) (RCFileOf pu profileName srcRCFileName) = None
            \<and> read_fault (faults w) (RCFileOf pu profileName srcRCFileName) = None
            \<and> create_fault (faults w) dst = None
            \<and> write_fault (faults w) dst = None
            \<longrightarrow> fst (installRCFile pu w profileName srcRCFileName dst) = None
              \<and> fs (snd (installRCFile pu w profileName srcRCFileName dst))
                  = (fs w)(dst \<mapsto> File (magicComment @ content)))
       \<and> (fs w (RCFileOf pu profileName srcRCFileName) = None
            \<longrightarrow> fst (installRCFile pu w profileName srcRCFileName dst) = None
              \<and> fs (snd (installRCFile pu w profileName srcRCFileName dst)) dst = None
              \<and> fs (snd (installRCFile pu w profileName srcRCFileName dst)) = fs w)"
proof -
  let ?src = "RCFileOf pu profileName srcRCFileName"
  obtain e w1 where rm: "os_Remove w dst = (e, w1)" by (cases "os_Remove w dst")
  have w1: "fs w1 = fs w" "faults w1 = faults w"
    using rm assms by (auto simp: os_Remove_def issue_def Let_def split: option.splits)
  have absent: "fs w ?src = None \<longrightarrow>
      fst (installRCFile pu w profileName srcRCFileName dst) = None
      \<and> fs (snd (installRCFile pu w profileName srcRCFileName dst)) dst = None
      \<and> fs (snd (installRCFile pu w profileName srcRCFileName dst)) = fs w"
    using assms rm w1 by (simp add: installRCFile_def Exists_def)
  have present: "fst (installRCFile pu w profileName srcRCFileName dst) = None
      \<and> fs (snd (installRCFile pu w profileName srcRCFileName dst))
          = (fs w)(dst \<mapsto> File (magicComment @ content))"
    if src: "fs w ?src = Some (File content)"
      and ok: "open_fault (faults w) ?src = None" "read_fault (faults w) ?src = None"
        "create_fault (faults w) dst = None" "write_fault (faults w) dst = None"
    for content
  proof -
    have ne: "?src \<noteq> dst" using src assms by auto
    have cp: "copyFileWithMagicComment w1 ?src dst
        = (None, (issue (Write dst content) (issue (Write dst magicComment) (issue (Create dst) w1)))
            \<lparr>fs := (fs w)(dst \<mapsto> File (magicComment @ content))\<rparr>)"
      using src ok ne w1 assms
      by (simp add: copyFileWithMagicComment_def os_Open_def os_Create_def file_Write_def
          io_Copy_def issue_def Let_def)
    show ?thesis
      using assms rm w1 src cp by (simp add: installRCFile_def Exists_def)
  qed
  from absent present show ?thesis by blast
qed

theorem installRCFile_absent_destination_witness:
  "fs profile_vimrc_world ''/u/.vim/vimrc'' = None
   \<and> fs profile_vimrc_world (RCFileOf home ''default'' ''vimrc.vim'') = Some (File ''syntax on'')
   \<and> fst (installRCFile home profile_vimrc_world ''default'' ''vimrc.vim'' ''/u/.vim/vimrc'') = None
   \<and> fs (snd (installRCFile home profile_vimrc_world ''default'' ''vimrc.vim'' ''/u/.vim/vimrc''))
         ''/u/.vim/vimrc'' = Some (File (magicComment @ ''syntax on''))
   \<and> fs profile_vimrc_world ''/u/.vim/gvimrc'' = None
   \<and> fs profile_vimrc_world (RCFileOf home ''default'' ''gvimrc.vim'') = None
   \<and> fst (installRCFile home profile_vimrc_world ''default'' ''gvimrc.vim'' ''/u/.vim/gvimrc'') = None
   \<and> fs (snd (installRCFile home profile_vimrc_world ''default'' ''gvimrc.vim'' ''/u/.vim/gvimrc''))
         ''/u/.vim/gvimrc'' = None"
proof -
  have a: "fs profile_vimrc_world ''/u/.vim/vimrc'' = None"
    and b: "fs profile_vimrc_world (RCFileOf home ''default'' ''vimrc.vim'') = Some (File ''syntax on'')"
    and c: "fs profile_vimrc_world ''/u/.vim/gvimrc'' = None"
    and d: "fs profile_vimrc_world (RCFileOf home ''default'' ''gvimrc.vim'') = None"
    and f: "faults profile_vimrc_world = no_faults"
    by (simp_all add: profile_vimrc_world_def home_def)
  from installRCFile_absent_destination[OF a, of home "''default''" "''vimrc.vim''"]
    installRCFile_absent_destination[OF c, of home "''default''" "''gvimrc.vim''"]
    a b c d f
  show ?thesis by (simp add: no_faults_def)
qed

text \<open>
  Claim C7. When the start directory exists and renaming it to its sibling (the name
  with \<open>.old\<close> and the random string added) fails, \<open>doRebuild\<close> returns the error of
  the rename, having received no result. The file system is as the installation of the
  startup files left it, which changed nothing but the two startup files; after the
  failed rename no call was issued and no goroutine started: no directory made, nothing
  deleted, no copy.
\<close>

theorem rename_failure_aborts_rebuild:
  assumes "preflight env w = Inr (reposList, w1)"
      and "Exists w1 (VimVoltStartDir (pathutil env))"
      and "os_Rename w1 (VimVoltStartDir (pathutil env))
             (VimVoltStartDir (pathutil env) @ ''.old'' @ randomString env) = (Some e, w2)"
  shows "doRebuild env w = (Returns (Some e), [], w2)
         \<and> fs w2 = fs w1
         \<and> log w2 = log w1 @ [Rename (VimVoltStartDir (pathutil env))
                                 (VimVoltStartDir (pathutil env) @ ''.old'' @ randomString env)]
         \<and> (\<forall>path. path \<noteq> Join (VimDir (pathutil env)) ''vimrc''
                   \<and> path \<noteq> Join (VimDir (pathutil env)) ''gvimrc''
               \<longrightarrow> fs w2 path = fs w path)"
proof -
  have "retire env w1 = Inl (e, w2)"
    using assms(2,3) by (simp add: retire_def removeStartDir_def Let_def)
  then have ret: "doRebuild env w = (Returns (Some e), [], w2)"
    using assms(1) by (simp add: doRebuild_def)
  have "w2 = issue (Rename (VimVoltStartDir (pathutil env))
                      (VimVoltStartDir (pathutil env) @ ''.old'' @ randomString env)) w1"
    using assms(3) by (auto simp: os_Rename_def Let_def split: option.splits if_splits)
  then have "fs w2 = fs w1"
    and "log w2 = log w1 @ [Rename (VimVoltStartDir (pathutil env))
                              (VimVoltStartDir (pathutil env) @ ''.old'' @ randomString env)]"
    by (simp_all add: issue_def)
  with ret preflight_frame[OF assms(1)] show ?thesis by simp
qed

theorem rename_failure_aborts_rebuild_witness:
  "preflight rebuild_run locked_world = Inr ([repos_hg, repos_static],
     locked_world\<lparr>log := [Remove ''/u/.vim/vimrc'', Remove ''/u/.vim/gvimrc'']\<rparr>)
   \<and> Exists (locked_world\<lparr>log := [Remove ''/u/.vim/vimrc'', Remove ''/u/.vim/gvimrc'']\<rparr>)
        ''/u/.vim/start''
   \<and> fst (os_Rename (locked_world\<lparr>log := [Remove ''/u/.vim/vimrc'', Remove ''/u/.vim/gvimrc'']\<rparr>)
        ''/u/.vim/start'' ''/u/.vim/start.old1z141z4'') = Some ''permission denied''
   \<and> doRebuild rebuild_run locked_world
       = (Returns (Some ''permission denied''), [],
          locked_world\<lparr>log := [Remove ''/u/.vim/vimrc'', Remove ''/u/.vim/gvimrc'',
                                Rename ''/u/.vim/start'' ''/u/.vim/start.old1z141z4'']\<rparr>)
   \<and> fs (locked_world\<lparr>log := [Remove ''/u/.vim/vimrc'', Remove ''/u/.vim/gvimrc'',
                                Rename ''/u/.vim/start'' ''/u/.vim/start.old1z141z4'']\<rparr>)
       = fs locked_world"
proof -
  let ?w1 = "locked_world\<lparr>log := [Remove ''/u/.vim/vimrc'', Remove ''/u/.vim/gvimrc'']\<rparr>"
  let ?w2 = "locked_world\<lparr>log := [Remove ''/u/.vim/vimrc'', Remove ''/u/.vim/gvimrc'',
                                Rename ''/u/.vim/start'' ''/u/.vim/start.old1z141z4'']\<rparr>"
  have sd: "VimVoltStartDir (pathutil rebuild_run) = ''/u/.vim/start''"
    and rs: "randomString rebuild_run = ''1z141z4''"
    by (simp_all add: rebuild_run_def home_def)
  have b: "Exists ?w1 (VimVoltStartDir (pathutil rebuild_run))"
    by (simp add: sd Exists_def locked_world_def built_world_def)
  have c: "os_Rename ?w1 (VimVoltStartDir (pathutil rebuild_run))
             (VimVoltStartDir (pathutil rebuild_run) @ ''.old'' @ randomString rebuild_run)
           = (Some ''permission denied'', ?w2)"
    by (simp add: sd rs os_Rename_def issue_def locked_world_def built_world_def no_faults_def)
  from rename_failure_aborts_rebuild[OF preflight_locked b c] preflight_locked b c
  show ?thesis by (simp add: sd rs)
qed

text \<open>
  Claim C8. In a rebuild that comes to start the copies, a repository of the list whose
  type is neither git nor static gets a result with the error \<open>invalid repository
  type: \<close> followed by the type. That result is on \<open>copyDone\<close>, the channel of this
  run that the workers' results are on and that \<open>doRebuild\<close> receives from, and the
  rebuild fails: \<open>doRebuild\<close> returns the copy error of the failed result it received
  last, which is this very result when no other result carries an error, and
  \<open>Rebuild\<close> exits with code 11 (10 when the transaction could not begin).
\<close>

theorem invalid_type_fails_rebuild:
  assumes "preflight env w = Inr (reposList, w1)"
      and "retire env w1 = Inr (removeDone, w2)"
      and "r \<in> set reposList"
      and "Type r \<noteq> ReposGitType"
      and "Type r \<noteq> ReposStaticType"
  shows "let bad = \<lparr>copy_err = Some (''invalid repository type: '' @ Type r), copy_repos = r\<rparr>;
             copyDone = arrivals (fst (start_copies env (VimVoltStartDir (pathutil env))
                                         reposList w2)) (schedule env);
             received = fst (snd (doRebuild env w))
         in bad \<in> set copyDone
          \<and> received = until_first_error copy_err copyDone
          \<and> (\<exists>e. copy_err (last received) = Some e
                \<and> last received \<in> set copyDone
                \<and> fst (doRebuild env w) = Returns (Some (copy_failed (last received) e)))
          \<and> ((\<forall>result \<in> set copyDone. copy_err result \<noteq> None \<longrightarrow> result = bad) \<longrightarrow>
               last received = bad
               \<and> fst (doRebuild env w)
                 = Returns (Some (copy_failed bad (''invalid repository type: '' @ Type r))))
          \<and> Rebuild env w = (if transaction_Create env = None then Returns 11 else Returns 10)"
proof -
  let ?bad = "\<lparr>copy_err = Some (''invalid repository type: '' @ Type r), copy_repos = r\<rparr>"
  let ?ch = "arrivals (fst (start_copies env (VimVoltStartDir (pathutil env)) reposList w2))
               (schedule env)"
  let ?rcv = "fst (snd (doRebuild env w))"
  have delivered: "?bad \<in> set ?ch"
  proof -
    have m: "[?bad] \<in> set (fst (start_copies env (VimVoltStartDir (pathutil env)) reposList w2))"
      by (rule start_copies_invalid[OF assms(3,4,5)])
    have "?bad \<in> set [?bad]" by simp
    from UN_I[where B = set, OF m this] show ?thesis by (simp only: set_arrivals)
  qed
  have badf: "copy_err ?bad \<noteq> None" by simp
  have ex: "\<exists>result \<in> set ?ch. copy_err result \<noteq> None"
    using delivered badf by (rule bexI[rotated])
  have rcv: "?rcv = until_first_error copy_err ?ch"
    by (rule doRebuild_received[OF assms(1,2)])
  from doRebuild_at_failed_result[OF assms(1,2) ex]
  obtain e where e: "copy_err (last ?rcv) = Some e" "last ?rcv \<in> set ?ch"
    "fst (doRebuild env w) = Returns (Some (copy_failed (last ?rcv) e))"
    by blast
  have only: "last ?rcv = ?bad
      \<and> fst (doRebuild env w)
        = Returns (Some (copy_failed ?bad (''invalid repository type: '' @ Type r)))"
    if o: "\<forall>result \<in> set ?ch. copy_err result \<noteq> None \<longrightarrow> result = ?bad"
  proof -
    have l: "last ?rcv = ?bad" using o e(1,2) by auto
    then have "e = ''invalid repository type: '' @ Type r" using e(1) by simp
    with l e(3) show ?thesis by simp
  qed
  have exit: "Rebuild env w = (if transaction_Create env = None then Returns 11 else Returns 10)"
    using e(3) by (auto simp: Rebuild_def split: option.splits)
  from delivered rcv e only exit show ?thesis unfolding Let_def by blast
qed

theorem invalid_type_fails_rebuild_witness:
  "preflight rebuild_run built_world = Inr ([repos_hg, repos_static],
     built_world\<lparr>log := [Remove ''/u/.vim/vimrc'', Remove ''/u/.vim/gvimrc'']\<rparr>)
   \<and> (\<exists>removeDone w2. retire rebuild_run
          (built_world\<lparr>log := [Remove ''/u/.vim/vimrc'', Remove ''/u/.vim/gvimrc'']\<rparr>)
          = Inr (removeDone, w2)
        \<and> \<lparr>copy_err = Some (''invalid repository type: '' @ Type repos_hg), copy_repos = repos_hg\<rparr>
            \<in> set (arrivals (fst (start_copies rebuild_run (VimVoltStartDir (pathutil rebuild_run))
                                    [repos_hg, repos_static] w2)) (schedule rebuild_run)))
   \<and> repos_hg \<in> set [repos_hg, repos_static]
   \<and> Type repos_hg \<noteq> ReposGitType
   \<and> Type repos_hg \<noteq> ReposStaticType
   \<and> (\<exists>e. copy_err (last (fst (snd (doRebuild rebuild_run built_world)))) = Some e
        \<and> fst (doRebuild rebuild_run built_world)
          = Returns (Some (copy_failed (last (fst (snd (doRebuild rebuild_run built_world)))) e)))
   \<and> Rebuild rebuild_run built_world = Returns 11"
proof -
  let ?w1 = "built_world\<lparr>log := [Remove ''/u/.vim/vimrc'', Remove ''/u/.vim/gvimrc'']\<rparr>"
  obtain removeDone w2 where r: "retire rebuild_run ?w1 = Inr (removeDone, w2)"
    by (simp add: retire_def removeStartDir_def os_Rename_def os_MkdirAll_def issue_def
        Exists_def rebuild_run_def home_def built_world_def no_faults_def Let_def below_def)
  have c: "repos_hg \<in> set [repos_hg, repos_static]" by simp
  have d: "Type repos_hg \<noteq> ReposGitType" by (simp add: repos_hg_def ReposGitType_def)
  have e: "Type repos_hg \<noteq> ReposStaticType" by (simp add: repos_hg_def ReposStaticType_def)
  have t: "transaction_Create rebuild_run = None" by (simp add: rebuild_run_def)
  from invalid_type_fails_rebuild[OF preflight_built r c d e] preflight_built r c d e t
  show ?thesis unfolding Let_def by auto
qed



text \<open>
  Claim C10. When the retired directory's deletion fails: if a result on \<open>copyDone\<close>
  carries an error, \<open>doRebuild\<close> returns the copy error of such a result; it returns
  the deletion's error exactly when all the results, one per repository, are free of
  errors.
\<close>

theorem copy_error_hides_remove_error:
  assumes "preflight env w = Inr (reposList, w1)"
      and "retire env w1 = Inr (Some (Some removeErr), w2)"
  shows "let copyDone = arrivals (fst (start_copies env (VimVoltStartDir (pathutil env)) reposList w2))
                          (schedule env)
         in ((\<exists>result \<in> set copyDone. copy_err result \<noteq> None) \<longrightarrow>
               (\<exists>result e. result \<in> set copyDone \<and> copy_err result = Some e
                  \<and> fst (doRebuild env w) = Returns (Some (copy_failed result e))))
          \<and> ((fst (doRebuild env w)
                 = Returns (Some (remove_failed (VimVoltStartDir (pathutil env)) removeErr)))
               = (length copyDone = length reposList
                  \<and> (\<forall>result \<in> set copyDone. copy_err result = None)))"
proof -
  let ?ch = "arrivals (fst (start_copies env (VimVoltStartDir (pathutil env)) reposList w2)) (schedule env)"
  let ?k = "first_error copy_err ?ch"
  have ret: "fst (doRebuild env w) =
      (if ?k < length ?ch
       then Returns (Some (copy_failed (?ch ! ?k) (the (copy_err (?ch ! ?k)))))
       else Returns (Some (remove_failed (VimVoltStartDir (pathutil env)) removeErr)))"
    using assms by (simp add: doRebuild_def copy_all_returns Let_def)
  have differ: "copy_failed result e \<noteq> remove_failed d e'" for result e d e'
    by (simp add: copy_failed_def remove_failed_def)
  have len: "length ?ch = length reposList" by (rule length_copyDone)
  have a: "(\<exists>result \<in> set ?ch. copy_err result \<noteq> None) \<longrightarrow>
      (\<exists>result e. result \<in> set ?ch \<and> copy_err result = Some e
         \<and> fst (doRebuild env w) = Returns (Some (copy_failed result e)))"
  proof
    assume "\<exists>result \<in> set ?ch. copy_err result \<noteq> None"
    then have k: "?k < length ?ch" by (simp add: first_error_less)
    then obtain e where e: "copy_err (?ch ! ?k) = Some e"
      using first_error_err[OF k] by auto
    show "\<exists>result e. result \<in> set ?ch \<and> copy_err result = Some e
         \<and> fst (doRebuild env w) = Returns (Some (copy_failed result e))"
      using k e ret by (intro exI[of _ "?ch ! ?k"] exI[of _ e]) simp
  qed
  have b: "(fst (doRebuild env w)
             = Returns (Some (remove_failed (VimVoltStartDir (pathutil env)) removeErr)))
           = (length ?ch = length reposList \<and> (\<forall>result \<in> set ?ch. copy_err result = None))"
    using ret differ len first_error_less[of copy_err ?ch] by auto
  from a b show ?thesis by (simp add: Let_def)
qed

theorem copy_error_hides_remove_error_witness:
  "preflight rebuild_run built_world = Inr ([repos_hg, repos_static],
     built_world\<lparr>log := [Remove ''/u/.vim/vimrc'', Remove ''/u/.vim/gvimrc'']\<rparr>)
   \<and> (\<exists>w2. retire rebuild_run
              (built_world\<lparr>log := [Remove ''/u/.vim/vimrc'', Remove ''/u/.vim/gvimrc'']\<rparr>)
            = Inr (Some (Some ''permission denied''), w2))
   \<and> (\<exists>result e. copy_err result = Some e
         \<and> fst (doRebuild rebuild_run built_world) = Returns (Some (copy_failed result e)))
   \<and> fst (doRebuild rebuild_run built_world)
       \<noteq> Returns (Some (remove_failed (VimVoltStartDir (pathutil rebuild_run)) ''permission denied''))"
proof -
  let ?w1 = "built_world\<lparr>log := [Remove ''/u/.vim/vimrc'', Remove ''/u/.vim/gvimrc'']\<rparr>"
  obtain w2 where r: "retire rebuild_run ?w1 = Inr (Some (Some ''permission denied''), w2)"
    by (simp add: retire_def removeStartDir_def os_Rename_def os_MkdirAll_def issue_def
        Exists_def rebuild_run_def home_def built_world_def no_faults_def Let_def below_def)
  let ?ch = "arrivals (fst (start_copies rebuild_run (VimVoltStartDir (pathutil rebuild_run))
                              [repos_hg, repos_static] w2)) (schedule rebuild_run)"
  have bad: "\<lparr>copy_err = Some (''invalid repository type: '' @ Type repos_hg), copy_repos = repos_hg\<rparr>
               \<in> set ?ch"
    by (simp add: set_arrivals start_copy_def Let_def repos_hg_def ReposGitType_def
        ReposStaticType_def split_beta)
  then have ex: "\<exists>result \<in> set ?ch. copy_err result \<noteq> None" by (rule bexI[rotated]) simp
  from copy_error_hides_remove_error[OF preflight_built r] ex preflight_built r
  show ?thesis unfolding Let_def by auto
qed

end
